theory Spec2Isabelle
  imports Main "HOL-Library.Sublist"
begin

section \<open>Python strings\<close>

text \<open>
  A Python \<^verbatim>\<open>str\<close> is a sequence of Unicode code points: \<^verbatim>\<open>len\<close>, slicing, \<^verbatim>\<open>strip\<close>
  and \<^verbatim>\<open>split\<close> all work on code points. The messages of \<^verbatim>\<open>gitrepo_server.py\<close> start with
  characters beyond ASCII, and the output cap counts characters, so a string is a list of
  code points here. \<open>asc\<close> reads an ASCII literal.
\<close>

type_synonym pystr = "nat list"

definition asc :: "string \<Rightarrow> pystr" where
  "asc s = map (of_char :: char \<Rightarrow> nat) s"

text \<open>\<^verbatim>\<open>str.isspace\<close> for one character: the code points that \<^verbatim>\<open>strip()\<close> and \<^verbatim>\<open>split()\<close> remove.\<close>

definition isspace :: "nat \<Rightarrow> bool" where
  "isspace c \<longleftrightarrow>
     (9 \<le> c \<and> c \<le> 13) \<or> (28 \<le> c \<and> c \<le> 32) \<or> c = 133 \<or> c = 160 \<or> c = 5760 \<or>
     (8192 \<le> c \<and> c \<le> 8202) \<or> c = 8232 \<or> c = 8233 \<or> c = 8239 \<or> c = 8287 \<or> c = 12288"

text \<open>\<^verbatim>\<open>s.strip()\<close>\<close>

definition strip :: "pystr \<Rightarrow> pystr" where
  "strip s = rev (dropWhile isspace (rev (dropWhile isspace s)))"

text \<open>\<^verbatim>\<open>s.split()\<close>: the maximal runs of non-whitespace characters, in order.\<close>

fun split_acc :: "pystr \<Rightarrow> pystr \<Rightarrow> pystr list" where
  "split_acc w [] = (if w = [] then [] else [w])"
| "split_acc w (c # cs) =
     (if isspace c then (if w = [] then split_acc [] cs else w # split_acc [] cs)
      else split_acc (w @ [c]) cs)"

definition split :: "pystr \<Rightarrow> pystr list" where
  "split s = split_acc [] s"

text \<open>\<^verbatim>\<open>s.split(c)\<close> for a one-character separator: never empty, keeps empty fields.\<close>

fun split_on :: "nat \<Rightarrow> pystr \<Rightarrow> pystr list" where
  "split_on c [] = [[]]"
| "split_on c (x # xs) =
     (if x = c then [] # split_on c xs
      else (x # hd (split_on c xs)) # tl (split_on c xs))"

text \<open>\<^verbatim>\<open>c.join(ws)\<close>\<close>

fun join :: "nat \<Rightarrow> pystr list \<Rightarrow> pystr" where
  "join c [] = []"
| "join c [w] = w"
| "join c (w # v # ws) = w @ c # join c (v # ws)"

text \<open>\<^verbatim>\<open>s.startswith(p)\<close>\<close>

definition startswith :: "pystr \<Rightarrow> pystr \<Rightarrow> bool" where
  "startswith s p \<longleftrightarrow> take (length p) s = p"

text \<open>\<^verbatim>\<open>str(n)\<close> for an integer: decimal digits, a minus sign for a negative one.\<close>

fun str_nat :: "nat \<Rightarrow> pystr" where
  "str_nat n = (if n < 10 then [48 + n] else str_nat (n div 10) @ [48 + n mod 10])"

declare str_nat.simps [simp del]

definition str_int :: "int \<Rightarrow> pystr" where
  "str_int i = (if i < 0 then 45 # str_nat (nat (- i)) else str_nat (nat i))"

section \<open>Configuration and the world outside the program\<close>

text \<open>
  \<^verbatim>\<open>subprocess.run(cmd, capture_output=True, text=True, timeout=timeout)\<close> either completes
  with a return code and the two captured streams, or raises \<^verbatim>\<open>TimeoutExpired\<close>, or raises
  another exception (git missing, undecodable output) whose \<^verbatim>\<open>str\<close> is kept.
\<close>

datatype proc = Completed int pystr pystr | TimeoutExpired | Raised pystr

text \<open>
  The program reads one setting from its environment and asks the operating system and the
  Python runtime for everything else. These are the parameters of the model:
  \<^item> \<open>REPOS_BASE_PATH\<close>: the module constant read from \<^verbatim>\<open>GIT_REPOS_PATH\<close> (default \<^verbatim>\<open>/repos\<close>);
  \<^item> \<open>os_resolve s\<close>: \<^verbatim>\<open>str(Path(s).resolve())\<close> for a path whose string is \<open>s\<close>, \<open>None\<close> when
    \<^verbatim>\<open>resolve\<close> raises (symlink loop, embedded NUL);
  \<^item> \<open>os_isdir s\<close>: \<^verbatim>\<open>os.path.isdir(s)\<close>, which never raises;
  \<^item> \<open>os_exists s\<close>: \<^verbatim>\<open>Path(s).exists()\<close>, \<open>None\<close> when it raises: \<^verbatim>\<open>exists\<close> answers
    \<^verbatim>\<open>False\<close> for a missing entry (ENOENT, ENOTDIR, EBADF, ELOOP) and for a name that cannot
    be encoded, and lets every other \<^verbatim>\<open>OSError\<close> of \<^verbatim>\<open>stat\<close> through (permission denied on
    the directory, name too long);
  \<^item> \<open>os_run cmd timeout\<close>: the outcome of \<^verbatim>\<open>subprocess.run\<close> on that argument vector;
  \<^item> \<open>decimal c\<close>: the decimal digit value of a non-ASCII code point in the runtime's Unicode
    database, if it has one (\<^verbatim>\<open>int()\<close> accepts such digits);
  \<^item> \<open>max_str_digits\<close>: \<^verbatim>\<open>sys.get_int_max_str_digits()\<close>, 0 for no limit.
\<close>

record env =
  REPOS_BASE_PATH :: pystr
  os_resolve :: "pystr \<Rightarrow> pystr option"
  os_isdir :: "pystr \<Rightarrow> bool"
  os_exists :: "pystr \<Rightarrow> bool option"
  os_run :: "pystr list \<Rightarrow> int \<Rightarrow> proc"
  decimal :: "nat \<Rightarrow> nat option"
  max_str_digits :: nat

definition MAX_OUTPUT_LENGTH :: nat where
  "MAX_OUTPUT_LENGTH = 10000"

definition GIT_TIMEOUT :: int where
  "GIT_TIMEOUT = 30"

section \<open>pathlib on POSIX\<close>

text \<open>
  \<^verbatim>\<open>Path(a) / b\<close> joins the two strings as \<^verbatim>\<open>posixpath.join\<close> does (an absolute \<open>b\<close> replaces
  \<open>a\<close>), splits off the root (\<^verbatim>\<open>/\<close>, or \<^verbatim>\<open>//\<close> for exactly two leading slashes) and keeps
  the segments that are neither empty nor \<^verbatim>\<open>.\<close>; a \<^verbatim>\<open>..\<close> segment is kept. \<^verbatim>\<open>str\<close> of a path
  is the root followed by the segments joined with \<^verbatim>\<open>/\<close>, and \<^verbatim>\<open>.\<close> for the empty path.
\<close>

definition sep :: nat where
  "sep = 47"

definition dot :: nat where
  "dot = 46"

definition posix_join :: "pystr \<Rightarrow> pystr \<Rightarrow> pystr" where
  "posix_join a b =
     (if take 1 b = [sep] then b
      else if a = [] \<or> last a = sep then a @ b
      else a @ sep # b)"

definition splitroot :: "pystr \<Rightarrow> pystr \<times> pystr" where
  "splitroot p =
     (if take 1 p \<noteq> [sep] then ([], p)
      else if take 1 (drop 1 p) \<noteq> [sep] \<or> take 1 (drop 2 p) = [sep] then ([sep], drop 1 p)
      else ([sep, sep], drop 2 p))"

type_synonym pure_path = "pystr \<times> pystr list"

definition parse_path :: "pystr \<Rightarrow> pure_path" where
  "parse_path p =
     (case splitroot p of
        (root, rel) \<Rightarrow> (root, filter (\<lambda>x. x \<noteq> [] \<and> x \<noteq> [dot]) (split_on sep rel)))"

text \<open>\<^verbatim>\<open>Path(a)\<close> and \<^verbatim>\<open>Path(a) / b\<close>\<close>

definition Path :: "pystr \<Rightarrow> pure_path" where
  "Path a = parse_path a"

definition path_div :: "pystr \<Rightarrow> pystr \<Rightarrow> pure_path" where
  "path_div a b = parse_path (posix_join a b)"

text \<open>\<^verbatim>\<open>str(p)\<close>\<close>

definition path_str :: "pure_path \<Rightarrow> pystr" where
  "path_str p =
     (case p of (root, tail) \<Rightarrow>
        (if root @ join sep tail = [] then [dot] else root @ join sep tail))"

section \<open>Utility functions\<close>

text \<open>The character class \<^verbatim>\<open>[;&|`$(){}]\<close> of \<open>sanitize_path\<close>.\<close>

definition dangerous :: "nat \<Rightarrow> bool" where
  "dangerous c \<longleftrightarrow> c \<in> {59, 38, 124, 96, 36, 40, 41, 123, 125}"

text \<open>\<^verbatim>\<open>s.replace('..', '')\<close>: one pass from the left over non-overlapping occurrences.\<close>

fun remove_dotdot :: "pystr \<Rightarrow> pystr" where
  "remove_dotdot (a # b # cs) =
     (if a = dot \<and> b = dot then remove_dotdot cs else a # remove_dotdot (b # cs))"
| "remove_dotdot cs = cs"

definition sanitize_path :: "pystr \<Rightarrow> pystr" where
  "sanitize_path path =
     (if path = [] \<or> strip path = [] then []
      else remove_dotdot (filter (\<lambda>c. \<not> dangerous c) (strip path)))"

text \<open>
  \<open>get_repo_path\<close> returns the empty string for a rejected name. Both calls of
  \<^verbatim>\<open>resolve\<close> are inside the \<^verbatim>\<open>try\<close>, so either one raising rejects the name.
\<close>

definition get_repo_path :: "env \<Rightarrow> pystr \<Rightarrow> pystr" where
  "get_repo_path e repo_name =
     (if repo_name = [] \<or> strip repo_name = [] then []
      else let sanitized = sanitize_path repo_name in
        if sanitized = [] then []
        else
          (case os_resolve e (path_str (path_div (REPOS_BASE_PATH e) sanitized)) of
             None \<Rightarrow> []
           | Some repo_path \<Rightarrow>
               (case os_resolve e (path_str (Path (REPOS_BASE_PATH e))) of
                  None \<Rightarrow> []
                | Some base_path \<Rightarrow>
                    if \<not> startswith repo_path base_path then [] else repo_path)))"

text \<open>
  \<^verbatim>\<open>int(s)\<close> for a string, \<open>None\<close> for \<^verbatim>\<open>ValueError\<close>. The runtime maps a non-ASCII
  whitespace character to a blank and a non-ASCII decimal digit to its ASCII digit (any other
  non-ASCII character makes the literal invalid, written \<^verbatim>\<open>?\<close> here); it then skips the C
  whitespace at both ends (code points 28 to 31 are whitespace for \<^verbatim>\<open>strip\<close> but not here),
  reads an optional sign and a non-empty run of digits in which single underscores may
  separate digits, and refuses a literal of more than \<open>max_str_digits\<close> digits (checked only
  above 640 digits).
\<close>

definition c_isspace :: "nat \<Rightarrow> bool" where
  "c_isspace c \<longleftrightarrow> (9 \<le> c \<and> c \<le> 13) \<or> c = 32"

definition is_digit :: "nat \<Rightarrow> bool" where
  "is_digit c \<longleftrightarrow> 48 \<le> c \<and> c \<le> 57"

definition to_ascii :: "env \<Rightarrow> nat \<Rightarrow> nat" where
  "to_ascii e c =
     (if c < 128 then c
      else if isspace c then 32
      else (case decimal e c of
              None \<Rightarrow> 63
            | Some d \<Rightarrow> if d \<le> 9 then 48 + d else 63))"

fun double_underscore :: "pystr \<Rightarrow> bool" where
  "double_underscore (a # b # cs) = ((a = 95 \<and> b = 95) \<or> double_underscore (b # cs))"
| "double_underscore cs = False"

definition py_int :: "env \<Rightarrow> pystr \<Rightarrow> int option" where
  "py_int e s =
     (let t = dropWhile c_isspace (map (to_ascii e) s);
          u = (if take 1 t = [43] \<or> take 1 t = [45] then drop 1 t else t);
          body = takeWhile (\<lambda>c. is_digit c \<or> c = 95) u;
          rest = dropWhile (\<lambda>c. is_digit c \<or> c = 95) u;
          ds = filter is_digit body
      in if body = [] \<or> hd body = 95 \<or> last body = 95 \<or> double_underscore body then None
         else if length ds > 640 \<and> max_str_digits e > 0 \<and> length ds > max_str_digits e
           then None
         else if dropWhile c_isspace rest \<noteq> [] then None
         else Some ((if take 1 t = [45] then - 1 else 1)
                      * int (foldl (\<lambda>v c. 10 * v + (c - 48)) 0 ds)))"

text \<open>
  The limit of \<open>repo_log\<close> and \<open>repo_file_history\<close> (the same six lines in both):
  \<^verbatim>\<open>
    try:
        limit_int = int(limit) if limit.strip() else 10
        if limit_int < 1 or limit_int > 100:
            limit_int = 10
    except ValueError:
        limit_int = 10
  \<close>
\<close>

definition limit_int :: "env \<Rightarrow> pystr \<Rightarrow> int" where
  "limit_int e limit =
     (if strip limit = [] then 10
      else (case py_int e limit of
              None \<Rightarrow> 10
            | Some n \<Rightarrow> if n < 1 \<or> n > 100 then 10 else n))"

section \<open>The command executor\<close>

text \<open>The characters beyond ASCII that open the messages.\<close>

definition cross_mark :: pystr where
  "cross_mark = [10060]"

definition check_mark :: pystr where
  "check_mark = [9989]"

definition warning_sign :: pystr where
  "warning_sign = [9888, 65039]"

definition stopwatch :: pystr where
  "stopwatch = [9201, 65039]"

definition scroll :: pystr where
  "scroll = [128220]"

definition memo :: pystr where
  "memo = [128221]"

definition magnifier :: pystr where
  "magnifier = [128269]"

text \<open>
  A call either returns a text (\<open>Inr\<close>) or raises (\<open>Inl\<close>); with it come the argument
  vectors handed to \<^verbatim>\<open>subprocess.run\<close> on the way, in order: an empty list means that no
  process was started. The one exception that can leave \<open>run_git_command\<close> is the \<^verbatim>\<open>OSError\<close>
  of \<^verbatim>\<open>git_dir.exists()\<close>, which stands before the \<^verbatim>\<open>try\<close>; the handlers modelled here have
  no \<^verbatim>\<open>try\<close> of their own and let it pass. Logging is left out.
\<close>

datatype error = OSError

type_synonym result = "(error + pystr) \<times> pystr list list"

definition git_cmd :: "pystr \<Rightarrow> pystr \<Rightarrow> pystr list" where
  "git_cmd repo_path args = [asc ''git'', asc ''-C'', repo_path] @ split args"

definition run_git_command :: "env \<Rightarrow> pystr \<Rightarrow> pystr \<Rightarrow> int \<Rightarrow> result" where
  "run_git_command e repo_path args timeout =
     (if repo_path = [] \<or> \<not> os_isdir e repo_path
        then (Inr (cross_mark @ asc '' Error: Invalid repository path''), [])
      else
        (case os_exists e (path_str (path_div repo_path (asc ''.git''))) of
           None \<Rightarrow> (Inl OSError, [])
         | Some git_dir_exists \<Rightarrow>
             if \<not> git_dir_exists
               then (Inr (cross_mark @ asc '' Error: Not a git repository''), [])
             else let cmd = git_cmd repo_path args in
               (case os_run e cmd timeout of
                  Completed returncode stdout stderr \<Rightarrow>
                    (let output = (if stdout \<noteq> [] then stdout else stderr);
                         output = (if length output > MAX_OUTPUT_LENGTH
                                   then take MAX_OUTPUT_LENGTH output @ [10, 10]
                                        @ asc ''... [Output truncated. Total: ''
                                        @ str_nat (length output) @ asc '' chars]''
                                   else output)
                     in if returncode = 0
                        then (Inr (if strip output \<noteq> [] then output
                                   else check_mark @ asc '' Command completed successfully''),
                              [cmd])
                        else (Inr (warning_sign @ asc '' Git command completed with status ''
                                     @ str_int returncode @ asc '':'' @ [10] @ output), [cmd]))
                | TimeoutExpired \<Rightarrow>
                    (Inr (stopwatch @ asc '' Command timed out after '' @ str_int timeout
                            @ asc '' seconds''), [cmd])
                | Raised msg \<Rightarrow>
                    (Inr (cross_mark @ asc '' Error executing git command: '' @ msg), [cmd]))))"

definition truncate_output :: "pystr \<Rightarrow> pystr" where
  "truncate_output output =
     (if length output > MAX_OUTPUT_LENGTH
      then take MAX_OUTPUT_LENGTH output @ [10, 10] @ asc ''... [Truncated from ''
           @ str_nat (length output) @ asc '' chars]''
      else output)"

section \<open>Operation handlers\<close>

definition repo_log :: "env \<Rightarrow> pystr \<Rightarrow> pystr \<Rightarrow> result" where
  "repo_log e repo_name limit =
     (if strip repo_name = []
        then (Inr (cross_mark @ asc '' Error: Repository name is required''), [])
      else let repo_path = get_repo_path e repo_name in
        if repo_path = [] then (Inr (cross_mark @ asc '' Error: Invalid repository name''), [])
        else
          (case run_git_command e repo_path
                  (asc ''log --oneline -n '' @ str_int (limit_int e limit)) GIT_TIMEOUT of
             (Inl err, cmds) \<Rightarrow> (Inl err, cmds)
           | (Inr result, cmds) \<Rightarrow>
               (Inr (scroll @ asc '' Last '' @ str_int (limit_int e limit)
                       @ asc '' commits for '' @ repo_name @ asc '':'' @ [10, 10] @ result),
                cmds)))"

text \<open>The character class \<^verbatim>\<open>[^a-fA-F0-9]\<close> of \<open>repo_show_commit\<close>, negated.\<close>

definition is_hex :: "nat \<Rightarrow> bool" where
  "is_hex c \<longleftrightarrow> (97 \<le> c \<and> c \<le> 102) \<or> (65 \<le> c \<and> c \<le> 70) \<or> (48 \<le> c \<and> c \<le> 57)"

definition repo_show_commit :: "env \<Rightarrow> pystr \<Rightarrow> pystr \<Rightarrow> result" where
  "repo_show_commit e repo_name commit_hash =
     (if strip repo_name = []
        then (Inr (cross_mark @ asc '' Error: Repository name is required''), [])
      else if strip commit_hash = []
        then (Inr (cross_mark @ asc '' Error: Commit hash is required''), [])
      else let repo_path = get_repo_path e repo_name in
        if repo_path = [] then (Inr (cross_mark @ asc '' Error: Invalid repository name''), [])
        else let sanitized_hash = filter is_hex (strip commit_hash) in
          if sanitized_hash = []
            then (Inr (cross_mark @ asc '' Error: Invalid commit hash format''), [])
          else
            (case run_git_command e repo_path (asc ''show '' @ sanitized_hash) GIT_TIMEOUT of
               (Inl err, cmds) \<Rightarrow> (Inl err, cmds)
             | (Inr result, cmds) \<Rightarrow>
                 (Inr (memo @ asc '' Commit '' @ sanitized_hash @ asc '' in '' @ repo_name
                         @ asc '':'' @ [10, 10] @ result), cmds)))"

definition repo_file_history :: "env \<Rightarrow> pystr \<Rightarrow> pystr \<Rightarrow> pystr \<Rightarrow> result" where
  "repo_file_history e repo_name file_path limit =
     (if strip repo_name = []
        then (Inr (cross_mark @ asc '' Error: Repository name is required''), [])
      else if strip file_path = []
        then (Inr (cross_mark @ asc '' Error: File path is required''), [])
      else let repo_path = get_repo_path e repo_name in
        if repo_path = [] then (Inr (cross_mark @ asc '' Error: Invalid repository name''), [])
        else let sanitized_file = sanitize_path file_path in
          if sanitized_file = [] then (Inr (cross_mark @ asc '' Error: Invalid file path''), [])
          else
            (case run_git_command e repo_path
                    (asc ''log --oneline -n '' @ str_int (limit_int e limit) @ asc '' -- ''
                       @ sanitized_file) GIT_TIMEOUT of
               (Inl err, cmds) \<Rightarrow> (Inl err, cmds)
             | (Inr result, cmds) \<Rightarrow>
                 (Inr (scroll @ asc '' History for '' @ sanitized_file @ asc '' in ''
                         @ repo_name @ asc '':'' @ [10, 10] @ result), cmds)))"

text \<open>\<^verbatim>\<open>p in s\<close> for strings.\<close>

fun contains :: "pystr \<Rightarrow> pystr \<Rightarrow> bool" where
  "contains [] p = (p = [])"
| "contains (c # cs) p = (startswith (c # cs) p \<or> contains cs p)"

text \<open>
  \<^verbatim>\<open>s.lower()\<close> on the letters A to Z. No character beyond ASCII has any of the characters
  of \<^verbatim>\<open>fatal:\<close> in its lower case, so the test \<^verbatim>\<open>"fatal:" in result.lower()\<close> of
  \<open>repo_search\<close>, the only use of \<^verbatim>\<open>lower\<close> modelled, is decided by this part alone.
\<close>

definition ascii_lower :: "pystr \<Rightarrow> pystr" where
  "ascii_lower s = map (\<lambda>c. if 65 \<le> c \<and> c \<le> 90 then c + 32 else c) s"

text \<open>\<^verbatim>\<open>s.replace('"', '\\"')\<close>\<close>

definition escape_quotes :: "pystr \<Rightarrow> pystr" where
  "escape_quotes s = concat (map (\<lambda>c. if c = 34 then [92, 34] else [c]) s)"

definition repo_search :: "env \<Rightarrow> pystr \<Rightarrow> pystr \<Rightarrow> result" where
  "repo_search e repo_name search_term =
     (if strip repo_name = []
        then (Inr (cross_mark @ asc '' Error: Repository name is required''), [])
      else if strip search_term = []
        then (Inr (cross_mark @ asc '' Error: Search term is required''), [])
      else let repo_path = get_repo_path e repo_name in
        if repo_path = [] then (Inr (cross_mark @ asc '' Error: Invalid repository name''), [])
        else let escaped_term = escape_quotes (strip search_term) in
          (case run_git_command e repo_path
                  (asc ''grep -n '' @ [34] @ escaped_term @ [34]) GIT_TIMEOUT of
             (Inl err, cmds) \<Rightarrow> (Inl err, cmds)
           | (Inr result, cmds) \<Rightarrow>
               (if contains (ascii_lower result) (asc ''fatal:'') \<or> strip result = []
                then (Inr (magnifier @ asc '' No matches found for '' @ [39] @ search_term
                             @ [39] @ asc '' in '' @ repo_name), cmds)
                else (Inr (magnifier @ asc '' Search results for '' @ [39] @ search_term
                             @ [39] @ asc '' in '' @ repo_name @ asc '':'' @ [10, 10]
                             @ truncate_output result), cmds))))"

section \<open>A sample world\<close>

text \<open>
  A file system without symbolic links and with the current directory \<^verbatim>\<open>/\<close>: resolving a
  path drops empty and \<^verbatim>\<open>.\<close> segments and lets \<^verbatim>\<open>..\<close> cancel the segment before it.
\<close>

fun collapse :: "pystr list \<Rightarrow> pystr list \<Rightarrow> pystr list" where
  "collapse st [] = rev st"
| "collapse st (x # xs) =
     (if x = [] \<or> x = [dot] then collapse st xs
      else if x = [dot, dot] then collapse (tl st) xs
      else collapse (x # st) xs)"

definition lexical_resolve :: "pystr \<Rightarrow> pystr option" where
  "lexical_resolve p = Some (sep # join sep (collapse [] (split_on sep p)))"

text \<open>
  The sample world has the default root \<^verbatim>\<open>/repos\<close> with one repository \<^verbatim>\<open>demo\<close> in it, and
  every run of git ends in \<open>outcome\<close>.
\<close>

definition sample :: "proc \<Rightarrow> env" where
  "sample outcome =
     \<lparr> REPOS_BASE_PATH = asc ''/repos'',
       os_resolve = lexical_resolve,
       os_isdir = (\<lambda>p. p = asc ''/repos'' \<or> p = asc ''/repos/demo''),
       os_exists = (\<lambda>p. Some (p = asc ''/repos/demo/.git'')),
       os_run = (\<lambda>cmd timeout. outcome),
       decimal = (\<lambda>c. None),
       max_str_digits = 4300 \<rparr>"

definition demo_world :: env where
  "demo_world = sample (Completed 0 (asc ''On branch main'') [])"

text \<open>
  The same world with one more directory, \<^verbatim>\<open>/repos/locked\<close>, which the server may not search:
  \<^verbatim>\<open>isdir\<close> answers \<^verbatim>\<open>True\<close> for it and \<^verbatim>\<open>stat\<close> of anything inside fails with EACCES, which
  \<^verbatim>\<open>exists\<close> lets through.
\<close>

definition locked_world :: env where
  "locked_world =
     demo_world
       \<lparr> os_isdir := (\<lambda>p. p = asc ''/repos/locked'' \<or> os_isdir demo_world p),
         os_exists := (\<lambda>p. if p = asc ''/repos/locked/.git'' then None
                            else os_exists demo_world p) \<rparr>"

text \<open>
  Whether a path string names the root or something below it, segment by segment (what
  \<^verbatim>\<open>PurePath.is_relative_to\<close> decides).
\<close>

definition is_relative_to :: "pystr \<Rightarrow> pystr \<Rightarrow> bool" where
  "is_relative_to p root \<longleftrightarrow>
     fst (parse_path p) = fst (parse_path root)
     \<and> prefix (snd (parse_path root)) (snd (parse_path p))"

section \<open>Facts about the string and path functions\<close>

lemmas eval_defs =
  asc_def isspace_def strip_def split_def startswith_def sep_def dot_def posix_join_def
  splitroot_def parse_path_def Path_def path_div_def path_str_def dangerous_def
  sanitize_path_def get_repo_path_def lexical_resolve_def sample_def demo_world_def
  locked_world_def
  is_relative_to_def Let_def

lemma split_on_not_Nil: "split_on c xs \<noteq> []"
  by (induction xs) auto

lemma split_on_append_sep:
  "split_on c (xs @ c # ys) = split_on c xs @ split_on c ys"
proof (induction xs)
  case Nil
  show ?case by simp
next
  case (Cons x xs)
  have ne: "split_on c xs \<noteq> []" by (rule split_on_not_Nil)
  show ?case
  proof (cases "x = c")
    case True
    with Cons show ?thesis by simp
  next
    case False
    with Cons ne show ?thesis by (cases "split_on c xs") auto
  qed
qed

lemma split_on_no_sep: "c \<notin> set xs \<Longrightarrow> split_on c xs = [xs]"
  by (induction xs) auto

lemma segments_append_slash_dot:
  "filter (\<lambda>x. x \<noteq> [] \<and> x \<noteq> [dot]) (split_on sep (r @ [sep, dot]))
   = filter (\<lambda>x. x \<noteq> [] \<and> x \<noteq> [dot]) (split_on sep r)"
  using split_on_append_sep [of sep r "[dot]"] by (simp add: sep_def dot_def)

lemma segments_append_dot:
  assumes "r = [] \<or> last r = sep"
  shows "filter (\<lambda>x. x \<noteq> [] \<and> x \<noteq> [dot]) (split_on sep (r @ [dot]))
   = filter (\<lambda>x. x \<noteq> [] \<and> x \<noteq> [dot]) (split_on sep r)"
proof (cases "r = []")
  case True
  then show ?thesis by (simp add: sep_def dot_def)
next
  case False
  with assms have "r = butlast r @ [sep]"
    by (metis append_butlast_last_id)
  then obtain q where q: "r = q @ [sep]" ..
  have a: "split_on sep (r @ [dot]) = split_on sep q @ split_on sep [dot]"
    using split_on_append_sep [of sep q "[dot]"] q by simp
  have b: "split_on sep r = split_on sep q @ split_on sep []"
    using split_on_append_sep [of sep q "[]"] q by simp
  show ?thesis unfolding a b by (simp add: sep_def dot_def)
qed

lemma splitroot_append_dot:
  "splitroot (a @ [dot]) = (fst (splitroot a), snd (splitroot a) @ [dot])"
proof (cases a)
  case Nil
  then show ?thesis by (simp add: splitroot_def sep_def dot_def)
next
  case a1: (Cons x xs)
  show ?thesis
  proof (cases xs)
    case Nil
    with a1 show ?thesis by (simp add: splitroot_def sep_def dot_def)
  next
    case a2: (Cons y ys)
    show ?thesis
    proof (cases ys)
      case Nil
      with a1 a2 show ?thesis by (simp add: splitroot_def sep_def dot_def)
    next
      case (Cons z zs)
      with a1 a2 show ?thesis by (simp add: splitroot_def)
    qed
  qed
qed

lemma splitroot_append_slash_dot:
  assumes "a \<noteq> []" and "last a \<noteq> sep"
  shows "splitroot (a @ [sep, dot]) = (fst (splitroot a), snd (splitroot a) @ [sep, dot])"
proof (cases a)
  case Nil
  with assms show ?thesis by simp
next
  case a1: (Cons x xs)
  show ?thesis
  proof (cases xs)
    case Nil
    with a1 assms show ?thesis by (simp add: splitroot_def)
  next
    case a2: (Cons y ys)
    show ?thesis
    proof (cases ys)
      case Nil
      with a1 a2 assms show ?thesis by (simp add: splitroot_def)
    next
      case (Cons z zs)
      with a1 a2 show ?thesis by (simp add: splitroot_def)
    qed
  qed
qed

lemma splitroot_rel_suffix: "\<exists>k. snd (splitroot a) = drop k a"
proof -
  have "snd (splitroot a) = drop 0 a \<or> snd (splitroot a) = drop 1 a \<or> snd (splitroot a) = drop 2 a"
    by (simp add: splitroot_def)
  then show ?thesis by blast
qed

lemma splitroot_rel_last:
  assumes "a \<noteq> []" and "last a = sep"
  shows "snd (splitroot a) = [] \<or> last (snd (splitroot a)) = sep"
proof -
  obtain k where k: "snd (splitroot a) = drop k a"
    using splitroot_rel_suffix by blast
  show ?thesis
  proof (cases "k < length a")
    case True
    then have "last (drop k a) = last a" by (rule last_drop)
    with k assms show ?thesis by simp
  next
    case False
    with k show ?thesis by simp
  qed
qed

lemma parse_path_join_dot: "parse_path (posix_join a [dot]) = parse_path a"
proof -
  consider (empty) "a = []" | (slash) "a \<noteq> []" "last a = sep" | (other) "a \<noteq> []" "last a \<noteq> sep"
    by blast
  then show ?thesis
  proof cases
    case empty
    then show ?thesis
      by (simp add: posix_join_def parse_path_def splitroot_def sep_def dot_def)
  next
    case slash
    then have j: "posix_join a [dot] = a @ [dot]"
      by (simp add: posix_join_def sep_def dot_def)
    show ?thesis
      unfolding j parse_path_def splitroot_append_dot
      using segments_append_dot [OF splitroot_rel_last [OF slash]]
      by (simp add: case_prod_unfold)
  next
    case other
    then have j: "posix_join a [dot] = a @ [sep, dot]"
      by (simp add: posix_join_def sep_def dot_def)
    show ?thesis
      unfolding j parse_path_def splitroot_append_slash_dot [OF other]
      using segments_append_slash_dot [of "snd (splitroot a)"]
      by (simp add: case_prod_unfold)
  qed
qed

lemma startswith_refl: "startswith s s"
  by (simp add: startswith_def)

lemma strip_eq_Nil_iff: "strip s = [] \<longleftrightarrow> (\<forall>c\<in>set s. isspace c)"
proof
  assume "strip s = []"
  then have "\<forall>c\<in>set (dropWhile isspace s). isspace c"
    by (simp add: strip_def dropWhile_eq_Nil_conv)
  then have "dropWhile isspace s = []"
    by (metis hd_dropWhile list.set_sel(1))
  then show "\<forall>c\<in>set s. isspace c"
    by (simp add: dropWhile_eq_Nil_conv)
next
  assume "\<forall>c\<in>set s. isspace c"
  then have d: "dropWhile isspace s = []"
    by (simp add: dropWhile_eq_Nil_conv)
  show "strip s = []"
    unfolding strip_def d by simp
qed

text \<open>What \<open>sanitize_path\<close> leaves: none of the ten characters, and no two dots in a row.\<close>

lemma remove_dotdot_subset: "set (remove_dotdot s) \<subseteq> set s"
  by (induction s rule: remove_dotdot.induct) auto

lemma sanitize_path_no_dangerous: "c \<in> set (sanitize_path path) \<Longrightarrow> \<not> dangerous c"
  using remove_dotdot_subset [of "filter (\<lambda>c. \<not> dangerous c) (strip path)"]
  by (auto simp: sanitize_path_def split: if_splits)

lemma remove_dotdot_no_pair: "\<not> contains (remove_dotdot s) [dot, dot]"
proof (induction s rule: remove_dotdot.induct)
  case (1 a b cs)
  show ?case
  proof (cases "a = dot \<and> b = dot")
    case True
    with 1 show ?thesis by simp
  next
    case False
    with 1 have ih: "\<not> contains (remove_dotdot (b # cs)) [dot, dot]" by simp
    have "\<not> startswith (a # remove_dotdot (b # cs)) [dot, dot]"
    proof (cases "a = dot")
      case adot: True
      with False have "b \<noteq> dot" by simp
      then have "take 1 (remove_dotdot (b # cs)) = [b]"
        by (cases cs) auto
      with adot \<open>b \<noteq> dot\<close> show ?thesis
        by (cases "remove_dotdot (b # cs)") (auto simp: startswith_def)
    next
      case False
      then show ?thesis by (simp add: startswith_def)
    qed
    with False ih show ?thesis by auto
  qed
qed (simp_all add: startswith_def)

lemma sanitize_path_no_dotdot: "\<not> contains (sanitize_path path) [dot, dot]"
  by (simp add: sanitize_path_def remove_dotdot_no_pair)

section \<open>Properties of the path resolver\<close>

text \<open>
  C1. The claim: a repository name with one of the ten characters or with \<^verbatim>\<open>..\<close> in it is
  either rejected or resolves to a path below the root. The code compares strings, not paths
  (\<^verbatim>\<open>str(repo_path).startswith(str(base_path))\<close> under the comment "Ensure it's within base
  path"), and removing \<^verbatim>\<open>..\<close> from \<^verbatim>\<open>../repos2\<close> leaves the absolute path \<^verbatim>\<open>/repos2\<close>, which
  replaces the root when joined to it. With the root \<^verbatim>\<open>/repos\<close> the name \<^verbatim>\<open>../repos2\<close> is
  accepted and resolves to \<^verbatim>\<open>/repos2\<close>, a sibling of the root; so does \<^verbatim>\<open>/repos2;\<close>.
\<close>

theorem sibling_of_root_accepted:
  "contains (asc ''../repos2'') [dot, dot]
   \<and> get_repo_path demo_world (asc ''../repos2'') = asc ''/repos2''
   \<and> dangerous 59 \<and> 59 \<in> set (asc ''/repos2;'')
   \<and> get_repo_path demo_world (asc ''/repos2;'') = asc ''/repos2''
   \<and> os_resolve demo_world (path_str (Path (REPOS_BASE_PATH demo_world))) = Some (asc ''/repos'')
   \<and> \<not> is_relative_to (asc ''/repos2'') (asc ''/repos'')"
  by (simp add: eval_defs)

text \<open>
  C2. Every accepted repository name resolves to a path whose string starts with the string
  of the resolved root.
\<close>

theorem accepted_path_starts_with_root:
  assumes "get_repo_path e repo_name \<noteq> []"
  shows "\<exists>base_path. os_resolve e (path_str (Path (REPOS_BASE_PATH e))) = Some base_path
           \<and> startswith (get_repo_path e repo_name) base_path"
  using assms
  by (auto simp: get_repo_path_def Let_def split: if_splits option.splits)

theorem accepted_path_starts_with_root_witness:
  "get_repo_path demo_world (asc ''demo'') = asc ''/repos/demo''
   \<and> asc ''/repos/demo'' \<noteq> []
   \<and> os_resolve demo_world (path_str (Path (REPOS_BASE_PATH demo_world))) = Some (asc ''/repos'')
   \<and> startswith (asc ''/repos/demo'') (asc ''/repos'')"
proof -
  have a: "get_repo_path demo_world (asc ''demo'') = asc ''/repos/demo''"
    by (simp add: eval_defs)
  have b: "get_repo_path demo_world (asc ''demo'') \<noteq> []"
    by (simp add: a) (simp add: asc_def)
  from accepted_path_starts_with_root [OF b] a show ?thesis
    by (simp add: eval_defs)
qed

text \<open>
  C10. The name \<^verbatim>\<open>...\<close> (which sanitizes to \<^verbatim>\<open>.\<close>) and the name \<^verbatim>\<open>.\<close> are accepted whenever
  the root itself resolves, and the path returned for them is the resolved root: the prefix
  test holds with equality.
\<close>

theorem root_itself_accepted:
  assumes "os_resolve e (path_str (Path (REPOS_BASE_PATH e))) = Some r" and "r \<noteq> []"
  shows "asc ''...'' \<noteq> [] \<and> sanitize_path (asc ''...'') = asc ''.''
         \<and> get_repo_path e (asc ''...'') = r \<and> get_repo_path e (asc ''.'') = r"
proof -
  have s3: "sanitize_path (asc ''...'') = [dot]"
    by (simp add: sanitize_path_def strip_def isspace_def asc_def dangerous_def dot_def)
  have s1: "sanitize_path (asc ''.'') = [dot]"
    by (simp add: sanitize_path_def strip_def isspace_def asc_def dangerous_def dot_def)
  have n3: "strip (asc ''...'') \<noteq> []" and n1: "strip (asc ''.'') \<noteq> []"
    by (simp_all add: strip_def isspace_def asc_def)
  have e3: "asc ''...'' \<noteq> []" and e1: "asc ''.'' \<noteq> []"
    by (simp_all add: asc_def)
  have p: "path_div (REPOS_BASE_PATH e) [dot] = Path (REPOS_BASE_PATH e)"
    by (simp add: path_div_def Path_def parse_path_join_dot)
  have a3: "get_repo_path e (asc ''...'') = r"
    using assms n3 e3 by (simp add: get_repo_path_def s3 p startswith_refl)
  have a1: "get_repo_path e (asc ''.'') = r"
    using assms n1 e1 by (simp add: get_repo_path_def s1 p startswith_refl)
  have d: "asc ''.'' = [dot]"
    by (simp add: asc_def dot_def)
  from a3 a1 e3 s3 d show ?thesis by simp
qed

theorem root_itself_accepted_witness:
  "os_resolve demo_world (path_str (Path (REPOS_BASE_PATH demo_world))) = Some (asc ''/repos'')
   \<and> asc ''/repos'' \<noteq> []
   \<and> get_repo_path demo_world (asc ''...'') = asc ''/repos''
   \<and> get_repo_path demo_world (asc ''.'') = asc ''/repos''"
proof -
  have a: "os_resolve demo_world (path_str (Path (REPOS_BASE_PATH demo_world)))
             = Some (asc ''/repos'')"
    by (simp add: eval_defs)
  have b: "asc ''/repos'' \<noteq> []"
    by (simp add: asc_def)
  from root_itself_accepted [OF a b] a b show ?thesis by simp
qed

text \<open>
  C4. The claim: every path from \<open>get_repo_path\<close> is inside the root, an existing directory
  and has a \<^verbatim>\<open>.git\<close> entry. \<open>get_repo_path\<close> asks for neither of the last two: in the sample
  world it accepts the name \<^verbatim>\<open>nope\<close>, which is no directory there.
\<close>

theorem missing_directory_accepted:
  "get_repo_path demo_world (asc ''nope'') = asc ''/repos/nope''
   \<and> asc ''/repos/nope'' \<noteq> []
   \<and> \<not> os_isdir demo_world (asc ''/repos/nope'')
   \<and> os_exists demo_world (path_str (path_div (asc ''/repos/nope'') (asc ''.git'')))
       = Some False"
  by (simp add: eval_defs)

text \<open>
  C4 as amended. A path accepted by \<open>get_repo_path\<close> is the resolved form of the root joined
  with the sanitized name. That it is an existing directory with a \<^verbatim>\<open>.git\<close> entry is
  checked later, by \<open>run_git_command\<close>: it starts a process for the path only if both hold.
\<close>

theorem accepted_path_resolved_and_checked_on_use:
  assumes "get_repo_path e repo_name = p" and "p \<noteq> []"
  shows "os_resolve e (path_str (path_div (REPOS_BASE_PATH e) (sanitize_path repo_name))) = Some p
         \<and> (snd (run_git_command e p args timeout) \<noteq> [] \<longrightarrow>
              os_isdir e p \<and> os_exists e (path_str (path_div p (asc ''.git''))) = Some True)"
proof -
  have a: "os_resolve e (path_str (path_div (REPOS_BASE_PATH e) (sanitize_path repo_name))) = Some p"
    using assms
    by (auto simp: get_repo_path_def Let_def split: if_splits option.splits)
  have b: "snd (run_git_command e p args timeout) \<noteq> [] \<longrightarrow>
             os_isdir e p \<and> os_exists e (path_str (path_div p (asc ''.git''))) = Some True"
    by (auto simp: run_git_command_def split: option.splits if_splits)
  from a b show ?thesis by simp
qed

theorem accepted_path_resolved_and_checked_on_use_witness:
  "get_repo_path demo_world (asc ''demo'') = asc ''/repos/demo''
   \<and> asc ''/repos/demo'' \<noteq> []
   \<and> os_resolve demo_world
        (path_str (path_div (REPOS_BASE_PATH demo_world) (sanitize_path (asc ''demo''))))
      = Some (asc ''/repos/demo'')
   \<and> snd (run_git_command demo_world (asc ''/repos/demo'') (asc ''status'') GIT_TIMEOUT)
      = [[asc ''git'', asc ''-C'', asc ''/repos/demo'', asc ''status'']]
   \<and> os_isdir demo_world (asc ''/repos/demo'')
   \<and> os_exists demo_world (path_str (path_div (asc ''/repos/demo'') (asc ''.git'')))
      = Some True"
proof -
  have a: "get_repo_path demo_world (asc ''demo'') = asc ''/repos/demo''"
    by (simp add: eval_defs)
  have b: "asc ''/repos/demo'' \<noteq> []"
    by (simp add: asc_def)
  have c: "snd (run_git_command demo_world (asc ''/repos/demo'') (asc ''status'') GIT_TIMEOUT)
           = [[asc ''git'', asc ''-C'', asc ''/repos/demo'', asc ''status'']]"
    by (simp add: eval_defs run_git_command_def git_cmd_def MAX_OUTPUT_LENGTH_def)
  from accepted_path_resolved_and_checked_on_use
         [OF a b, of "asc ''status''" GIT_TIMEOUT] a b c
  show ?thesis by simp
qed

section \<open>Properties of the command executor\<close>

text \<open>
  What the entry checks of \<open>run_git_command\<close> do, for every world: no process is started
  unless the path is a non-empty existing directory for which the \<^verbatim>\<open>.git\<close> test answers
  \<^verbatim>\<open>True\<close>; an empty path or a path that is no directory gives the first error text, a
  \<^verbatim>\<open>.git\<close> test that answers \<^verbatim>\<open>False\<close> gives the second, and a \<^verbatim>\<open>.git\<close> test that raises
  leaves the function as an exception.
\<close>

lemma entry_checks:
  "(repo_path = [] \<or> \<not> os_isdir e repo_path
      \<or> os_exists e (path_str (path_div repo_path (asc ''.git''))) \<noteq> Some True
    \<longrightarrow> snd (run_git_command e repo_path args timeout) = [])
   \<and> (repo_path = [] \<or> \<not> os_isdir e repo_path
    \<longrightarrow> fst (run_git_command e repo_path args timeout)
          = Inr (cross_mark @ asc '' Error: Invalid repository path''))
   \<and> (repo_path \<noteq> [] \<and> os_isdir e repo_path
      \<and> os_exists e (path_str (path_div repo_path (asc ''.git''))) = Some False
    \<longrightarrow> fst (run_git_command e repo_path args timeout)
          = Inr (cross_mark @ asc '' Error: Not a git repository''))
   \<and> (repo_path \<noteq> [] \<and> os_isdir e repo_path
      \<and> os_exists e (path_str (path_div repo_path (asc ''.git''))) = None
    \<longrightarrow> fst (run_git_command e repo_path args timeout) = Inl OSError)"
  by (auto simp: run_git_command_def split: option.splits)

text \<open>
  C5. The claim: whenever the path is empty, is no existing directory or has no \<^verbatim>\<open>.git\<close>
  entry, \<open>run_git_command\<close> returns one of its two error texts and starts no process. The
  two tests stand before the \<^verbatim>\<open>try\<close>, and \<^verbatim>\<open>git_dir.exists()\<close> can raise. For the directory
  \<^verbatim>\<open>/repos/locked\<close>, which exists, holds no \<^verbatim>\<open>.git\<close> entry and may not be searched, no process
  is started, but no error text is returned either: the \<^verbatim>\<open>OSError\<close> leaves the function.
\<close>

theorem unsearchable_directory_raises:
  "asc ''/repos/locked'' \<noteq> []
   \<and> os_isdir locked_world (asc ''/repos/locked'')
   \<and> os_exists locked_world (path_str (path_div (asc ''/repos/locked'') (asc ''.git''))) = None
   \<and> run_git_command locked_world (asc ''/repos/locked'') (asc ''status'') GIT_TIMEOUT
       = (Inl OSError, [])"
  by (simp add: eval_defs run_git_command_def)

text \<open>
  C6. The claim: a completed invocation with status 0 and non-empty output returns that
  output. The code tests \<^verbatim>\<open>output.strip()\<close>, not \<^verbatim>\<open>output\<close>: when git prints a single
  newline and exits with status 0, the text returned is the success sentinel.
\<close>

theorem whitespace_output_gives_sentinel:
  "run_git_command (sample (Completed 0 [10] [])) (asc ''/repos/demo'') (asc ''status'') GIT_TIMEOUT
     = (Inr (check_mark @ asc '' Command completed successfully''),
        [[asc ''git'', asc ''-C'', asc ''/repos/demo'', asc ''status'']])
   \<and> [10] \<noteq> ([] :: pystr)
   \<and> check_mark @ asc '' Command completed successfully'' \<noteq> [10]"
  by (simp add: eval_defs run_git_command_def git_cmd_def MAX_OUTPUT_LENGTH_def check_mark_def)

text \<open>
  C6 as amended. For a completed invocation the captured text is standard output if that is
  non-empty and standard error otherwise, cut to the cap with the marker appended when it is
  longer (C7). With status 0 that text is returned if it has a character that is not
  whitespace, and the success sentinel is returned if it is empty or all whitespace; a text
  cut to the cap always has such a character. With another status the text is returned
  behind a line that carries the status code.
\<close>

theorem completed_invocation_classified:
  assumes "repo_path \<noteq> []" and "os_isdir e repo_path"
    and "os_exists e (path_str (path_div repo_path (asc ''.git''))) = Some True"
    and "os_run e (git_cmd repo_path args) timeout = Completed returncode stdout stderr"
    and "captured = (if stdout \<noteq> [] then stdout else stderr)"
    and "text = (if length captured > MAX_OUTPUT_LENGTH
                 then take MAX_OUTPUT_LENGTH captured @ [10, 10]
                      @ asc ''... [Output truncated. Total: ''
                      @ str_nat (length captured) @ asc '' chars]''
                 else captured)"
  shows "(returncode = 0 \<and> (\<exists>c\<in>set text. \<not> isspace c) \<longrightarrow>
            fst (run_git_command e repo_path args timeout) = Inr text)
       \<and> (returncode = 0 \<and> (\<forall>c\<in>set text. isspace c) \<longrightarrow>
            fst (run_git_command e repo_path args timeout)
              = Inr (check_mark @ asc '' Command completed successfully''))
       \<and> (returncode \<noteq> 0 \<longrightarrow>
            fst (run_git_command e repo_path args timeout)
              = Inr (warning_sign @ asc '' Git command completed with status ''
                       @ str_int returncode @ asc '':'' @ [10] @ text))
       \<and> (length captured > MAX_OUTPUT_LENGTH \<longrightarrow> (\<exists>c\<in>set text. \<not> isspace c))
       \<and> snd (run_git_command e repo_path args timeout) = [git_cmd repo_path args]"
proof -
  have r: "run_git_command e repo_path args timeout =
             (if returncode = 0
              then Inr (if strip text \<noteq> [] then text
                        else check_mark @ asc '' Command completed successfully'')
              else Inr (warning_sign @ asc '' Git command completed with status ''
                          @ str_int returncode @ asc '':'' @ [10] @ text),
              [git_cmd repo_path args])"
    using assms by (simp add: run_git_command_def Let_def)
  have m: "93 \<in> set (asc '' chars]'')" and n: "\<not> isspace 93"
    by (simp_all add: asc_def isspace_def)
  have l: "length captured > MAX_OUTPUT_LENGTH \<longrightarrow> (\<exists>c\<in>set text. \<not> isspace c)"
    using assms(6) m n by auto
  from r l show ?thesis
    by (simp add: strip_eq_Nil_iff)
qed

theorem completed_invocation_classified_witness:
  "asc ''/repos/demo'' \<noteq> [] \<and> os_isdir demo_world (asc ''/repos/demo'')
   \<and> os_exists demo_world (path_str (path_div (asc ''/repos/demo'') (asc ''.git'')))
        = Some True
   \<and> os_run demo_world (git_cmd (asc ''/repos/demo'') (asc ''status'')) GIT_TIMEOUT
        = Completed 0 (asc ''On branch main'') []
   \<and> (\<exists>c\<in>set (asc ''On branch main''). \<not> isspace c)
   \<and> fst (run_git_command demo_world (asc ''/repos/demo'') (asc ''status'') GIT_TIMEOUT)
        = Inr (asc ''On branch main'')"
proof -
  have a: "asc ''/repos/demo'' \<noteq> []"
    by (simp add: asc_def)
  have b: "os_isdir demo_world (asc ''/repos/demo'')"
    by (simp add: eval_defs)
  have c: "os_exists demo_world (path_str (path_div (asc ''/repos/demo'') (asc ''.git'')))
             = Some True"
    by (simp add: eval_defs)
  have d: "os_run demo_world (git_cmd (asc ''/repos/demo'') (asc ''status'')) GIT_TIMEOUT
             = Completed 0 (asc ''On branch main'') []"
    by (simp add: demo_world_def sample_def)
  have f: "length (asc ''On branch main'') \<le> MAX_OUTPUT_LENGTH"
    by (simp add: asc_def MAX_OUTPUT_LENGTH_def)
  have g: "\<exists>c\<in>set (asc ''On branch main''). \<not> isspace c"
    by (simp add: asc_def isspace_def)
  have h: "asc ''On branch main'' \<noteq> []"
    by (simp add: asc_def)
  from completed_invocation_classified [OF a b c d refl refl] f g h a b c d
  show ?thesis by simp
qed

text \<open>
  C7. A string longer than the cap of 10000 characters is cut to its first 10000 characters
  and a marker with the original length is appended; a string within the cap is left as it
  is. This holds for \<open>truncate_output\<close> and, with its own marker text, for the output that
  \<open>run_git_command\<close> returns after a run with status 0.
\<close>

theorem long_output_cut_to_cap:
  "MAX_OUTPUT_LENGTH = 10000
   \<and> (length s \<le> 10000 \<longrightarrow> truncate_output s = s)
   \<and> (length s > 10000 \<longrightarrow>
        truncate_output s = take 10000 s @ [10, 10] @ asc ''... [Truncated from ''
                            @ str_nat (length s) @ asc '' chars]''
        \<and> length (take 10000 s) = 10000)
   \<and> (repo_path \<noteq> [] \<and> os_isdir e repo_path
        \<and> os_exists e (path_str (path_div repo_path (asc ''.git''))) = Some True
        \<and> os_run e (git_cmd repo_path args) timeout = Completed 0 s stderr
        \<and> (\<exists>c\<in>set s. \<not> isspace c) \<longrightarrow>
          (length s \<le> 10000 \<longrightarrow> fst (run_git_command e repo_path args timeout) = Inr s)
        \<and> (length s > 10000 \<longrightarrow>
             fst (run_git_command e repo_path args timeout)
               = Inr (take 10000 s @ [10, 10] @ asc ''... [Output truncated. Total: ''
                        @ str_nat (length s) @ asc '' chars]'')))"
proof -
  have t1: "length s \<le> 10000 \<longrightarrow> truncate_output s = s"
    by (simp add: truncate_output_def MAX_OUTPUT_LENGTH_def)
  have t2: "length s > 10000 \<longrightarrow>
        truncate_output s = take 10000 s @ [10, 10] @ asc ''... [Truncated from ''
                            @ str_nat (length s) @ asc '' chars]''
        \<and> length (take 10000 s) = 10000"
    by (simp add: truncate_output_def MAX_OUTPUT_LENGTH_def)
  have m: "93 \<in> set (asc '' chars]'')" and n: "\<not> isspace 93"
    by (simp_all add: asc_def isspace_def)
  have nb: "strip (take 10000 s @ [10, 10] @ asc ''... [Output truncated. Total: ''
                 @ str_nat (length s) @ asc '' chars]'') \<noteq> []"
    using m n unfolding strip_eq_Nil_iff by auto
  have t3: "repo_path \<noteq> [] \<and> os_isdir e repo_path
        \<and> os_exists e (path_str (path_div repo_path (asc ''.git''))) = Some True
        \<and> os_run e (git_cmd repo_path args) timeout = Completed 0 s stderr
        \<and> (\<exists>c\<in>set s. \<not> isspace c) \<longrightarrow>
          (length s \<le> 10000 \<longrightarrow> fst (run_git_command e repo_path args timeout) = Inr s)
        \<and> (length s > 10000 \<longrightarrow>
             fst (run_git_command e repo_path args timeout)
               = Inr (take 10000 s @ [10, 10] @ asc ''... [Output truncated. Total: ''
                        @ str_nat (length s) @ asc '' chars]''))"
  proof (intro impI, elim conjE)
    assume p: "repo_path \<noteq> []" "os_isdir e repo_path"
      "os_exists e (path_str (path_div repo_path (asc ''.git''))) = Some True"
      "os_run e (git_cmd repo_path args) timeout = Completed 0 s stderr"
      and q: "\<exists>c\<in>set s. \<not> isspace c"
    from q have ne: "s \<noteq> []" by auto
    from q have sn: "strip s \<noteq> []" by (simp add: strip_eq_Nil_iff)
    show "(length s \<le> 10000 \<longrightarrow> fst (run_git_command e repo_path args timeout) = Inr s)
        \<and> (length s > 10000 \<longrightarrow>
             fst (run_git_command e repo_path args timeout)
               = Inr (take 10000 s @ [10, 10] @ asc ''... [Output truncated. Total: ''
                        @ str_nat (length s) @ asc '' chars]''))"
      using p ne sn nb
      by (simp add: run_git_command_def Let_def MAX_OUTPUT_LENGTH_def)
  qed
  from t1 t2 t3 show ?thesis
    by (simp add: MAX_OUTPUT_LENGTH_def)
qed

theorem long_output_cut_to_cap_witness:
  "length (replicate 10001 (97::nat)) > 10000
   \<and> truncate_output (replicate 10001 97)
       = replicate 10000 97 @ [10, 10] @ asc ''... [Truncated from 10001 chars]''
   \<and> length (asc ''short'') \<le> 10000
   \<and> truncate_output (asc ''short'') = asc ''short''
   \<and> os_run (sample (Completed 0 (replicate 10001 97) []))
         (git_cmd (asc ''/repos/demo'') (asc ''status'')) GIT_TIMEOUT
       = Completed 0 (replicate 10001 97) []
   \<and> fst (run_git_command (sample (Completed 0 (replicate 10001 97) []))
             (asc ''/repos/demo'') (asc ''status'') GIT_TIMEOUT)
       = Inr (replicate 10000 97 @ [10, 10]
                @ asc ''... [Output truncated. Total: 10001 chars]'')"
proof -
  let ?w = "sample (Completed 0 (replicate 10001 97) [])"
  have n: "str_nat 10001 = asc ''10001''"
    by (simp add: str_nat.simps asc_def)
  have l: "length (replicate 10001 (97::nat)) = 10001"
    by simp
  have k: "take 10000 (replicate 10001 (97::nat)) = replicate 10000 97"
    by simp
  have a: "asc ''/repos/demo'' \<noteq> []"
    by (simp add: asc_def)
  have b: "os_isdir ?w (asc ''/repos/demo'')"
    by (simp add: sample_def)
  have c: "os_exists ?w (path_str (path_div (asc ''/repos/demo'') (asc ''.git''))) = Some True"
    by (simp add: eval_defs)
  have d: "os_run ?w (git_cmd (asc ''/repos/demo'') (asc ''status'')) GIT_TIMEOUT
             = Completed 0 (replicate 10001 97) []"
    by (simp add: sample_def)
  have g: "\<exists>c\<in>set (replicate 10001 (97::nat)). \<not> isspace c"
    by (simp add: isspace_def)
  have h: "length (asc ''short'') \<le> 10000"
    by (simp add: asc_def)
  have j: "asc ''... [Truncated from '' @ asc ''10001'' @ asc '' chars]''
             = asc ''... [Truncated from 10001 chars]''"
    "asc ''... [Output truncated. Total: '' @ asc ''10001'' @ asc '' chars]''
             = asc ''... [Output truncated. Total: 10001 chars]''"
    by (simp_all add: asc_def)
  have x: "truncate_output (replicate 10001 97)
       = replicate 10000 97 @ [10, 10] @ asc ''... [Truncated from 10001 chars]''"
    using long_output_cut_to_cap [where s = "replicate 10001 97"] l k n j
    by simp
  have y: "truncate_output (asc ''short'') = asc ''short''"
    using long_output_cut_to_cap [where s = "asc ''short''"] h
    by simp
  have z: "fst (run_git_command ?w (asc ''/repos/demo'') (asc ''status'') GIT_TIMEOUT)
       = Inr (replicate 10000 97 @ [10, 10]
                @ asc ''... [Output truncated. Total: 10001 chars]'')"
    using long_output_cut_to_cap
            [where s = "replicate 10001 97" and e = ?w and repo_path = "asc ''/repos/demo''"
               and args = "asc ''status''" and timeout = GIT_TIMEOUT and stderr = "[]"]
          a b c d g l k n j
    by simp
  from x y z d h l show ?thesis by simp
qed

section \<open>Properties of the operation handlers\<close>

lemma run_git_command_cmds:
  "set (snd (run_git_command e repo_path args timeout)) \<subseteq> {git_cmd repo_path args}"
  by (auto simp: run_git_command_def Let_def split: proc.splits if_splits option.splits)

text \<open>A handler passes on what \<open>run_git_command\<close> raised or decorates what it returned.\<close>

lemma handler_reply:
  "(case r of (Inl err, cmds) \<Rightarrow> (Inl err, cmds) | (Inr result, cmds) \<Rightarrow> (Inr (f result), cmds))
   = (case fst r of Inl err \<Rightarrow> Inl err | Inr result \<Rightarrow> Inr (f result), snd r)"
  by (simp split: prod.splits sum.splits)

lemma limit_int_range: "1 \<le> limit_int e limit \<and> limit_int e limit \<le> 100"
  by (simp add: limit_int_def split: option.splits)

lemma py_int_50: "py_int e (asc ''50'') = Some 50"
  by (simp add: py_int_def Let_def to_ascii_def c_isspace_def is_digit_def asc_def)

text \<open>
  C8. In \<open>repo_log\<close> and \<open>repo_file_history\<close> a limit that \<^verbatim>\<open>int()\<close> refuses, or whose value is
  below 1 or above 100, becomes 10, and the limit \<^verbatim>\<open>50\<close> stays 50. The number is what any git
  command of the two handlers carries after \<^verbatim>\<open>-n\<close>.
\<close>

theorem limit_falls_back_to_ten:
  "(py_int e limit = None \<longrightarrow> limit_int e limit = 10)
   \<and> (\<forall>n. py_int e limit = Some n \<and> (n < 1 \<or> 100 < n) \<longrightarrow> limit_int e limit = 10)
   \<and> py_int e (asc ''50'') = Some 50
   \<and> limit_int e (asc ''50'') = 50
   \<and> (\<forall>cmd\<in>set (snd (repo_log e repo_name limit)).
         cmd = git_cmd (get_repo_path e repo_name)
                 (asc ''log --oneline -n '' @ str_int (limit_int e limit)))
   \<and> (\<forall>cmd\<in>set (snd (repo_file_history e repo_name file_path limit)).
         cmd = git_cmd (get_repo_path e repo_name)
                 (asc ''log --oneline -n '' @ str_int (limit_int e limit) @ asc '' -- ''
                    @ sanitize_path file_path))"
proof -
  have a: "py_int e limit = None \<longrightarrow> limit_int e limit = 10"
    by (simp add: limit_int_def)
  have b: "\<forall>n. py_int e limit = Some n \<and> (n < 1 \<or> 100 < n) \<longrightarrow> limit_int e limit = 10"
    by (auto simp: limit_int_def)
  have s: "strip (asc ''50'') \<noteq> []"
    by (simp add: strip_def isspace_def asc_def)
  have c: "limit_int e (asc ''50'') = 50"
    using s by (simp add: limit_int_def py_int_50)
  have d: "\<forall>cmd\<in>set (snd (repo_log e repo_name limit)).
         cmd = git_cmd (get_repo_path e repo_name)
                 (asc ''log --oneline -n '' @ str_int (limit_int e limit))"
    using run_git_command_cmds
            [of e "get_repo_path e repo_name"
                "asc ''log --oneline -n '' @ str_int (limit_int e limit)" GIT_TIMEOUT]
    by (auto simp: repo_log_def Let_def handler_reply split: if_splits)
  have f: "\<forall>cmd\<in>set (snd (repo_file_history e repo_name file_path limit)).
         cmd = git_cmd (get_repo_path e repo_name)
                 (asc ''log --oneline -n '' @ str_int (limit_int e limit) @ asc '' -- ''
                    @ sanitize_path file_path)"
    using run_git_command_cmds
            [of e "get_repo_path e repo_name"
                "asc ''log --oneline -n '' @ str_int (limit_int e limit) @ asc '' -- ''
                   @ sanitize_path file_path" GIT_TIMEOUT]
    by (auto simp: repo_file_history_def Let_def handler_reply split: if_splits)
  from a b c d f py_int_50 show ?thesis
    by blast
qed

theorem limit_falls_back_to_ten_witness:
  "py_int demo_world (asc ''abc'') = None \<and> limit_int demo_world (asc ''abc'') = 10
   \<and> py_int demo_world (asc ''500'') = Some 500 \<and> limit_int demo_world (asc ''500'') = 10
   \<and> py_int demo_world (asc ''0'') = Some 0 \<and> limit_int demo_world (asc ''0'') = 10
   \<and> snd (repo_log demo_world (asc ''demo'') (asc ''500''))
       = [[asc ''git'', asc ''-C'', asc ''/repos/demo'', asc ''log'', asc ''--oneline'',
           asc ''-n'', asc ''10'']]
   \<and> snd (repo_file_history demo_world (asc ''demo'') (asc ''README.md'') (asc ''50''))
       = [[asc ''git'', asc ''-C'', asc ''/repos/demo'', asc ''log'', asc ''--oneline'',
           asc ''-n'', asc ''50'', asc ''--'', asc ''README.md'']]"
proof -
  have p1: "py_int demo_world (asc ''abc'') = None"
    by (simp add: py_int_def Let_def to_ascii_def c_isspace_def is_digit_def asc_def)
  have p2: "py_int demo_world (asc ''500'') = Some 500"
    by (simp add: py_int_def Let_def to_ascii_def c_isspace_def is_digit_def asc_def)
  have p3: "py_int demo_world (asc ''0'') = Some 0"
    by (simp add: py_int_def Let_def to_ascii_def c_isspace_def is_digit_def asc_def)
  have l1: "limit_int demo_world (asc ''abc'') = 10"
    using limit_falls_back_to_ten [of demo_world "asc ''abc''"] p1 by simp
  have l2: "limit_int demo_world (asc ''500'') = 10"
    using limit_falls_back_to_ten [of demo_world "asc ''500''"] p2 by simp
  have l3: "limit_int demo_world (asc ''0'') = 10"
    using limit_falls_back_to_ten [of demo_world "asc ''0''"] p3 by simp
  have l4: "limit_int demo_world (asc ''50'') = 50"
    using limit_falls_back_to_ten [of demo_world] by simp
  have n: "str_int 10 = asc ''10''" "str_int 50 = asc ''50''"
    by (simp_all add: str_int_def str_nat.simps asc_def)
  have g: "get_repo_path demo_world (asc ''demo'') = asc ''/repos/demo''"
    by (simp add: eval_defs)
  have sn: "strip (asc ''demo'') \<noteq> []" "strip (asc ''README.md'') \<noteq> []"
    by (simp_all add: strip_def isspace_def asc_def)
  have sf: "sanitize_path (asc ''README.md'') = asc ''README.md''"
    by (simp add: sanitize_path_def strip_def isspace_def dangerous_def dot_def asc_def)
  have ne: "asc ''/repos/demo'' \<noteq> []" "asc ''README.md'' \<noteq> []"
    by (simp_all add: asc_def)
  have c1: "snd (run_git_command demo_world (asc ''/repos/demo'')
                   (asc ''log --oneline -n '' @ asc ''10'') GIT_TIMEOUT)
            = [[asc ''git'', asc ''-C'', asc ''/repos/demo'', asc ''log'', asc ''--oneline'',
                asc ''-n'', asc ''10'']]"
    by (simp add: eval_defs run_git_command_def git_cmd_def MAX_OUTPUT_LENGTH_def)
  have c2: "snd (run_git_command demo_world (asc ''/repos/demo'')
                   (asc ''log --oneline -n '' @ asc ''50'' @ asc '' -- '' @ asc ''README.md'')
                   GIT_TIMEOUT)
            = [[asc ''git'', asc ''-C'', asc ''/repos/demo'', asc ''log'', asc ''--oneline'',
                asc ''-n'', asc ''50'', asc ''--'', asc ''README.md'']]"
    by (simp add: eval_defs run_git_command_def git_cmd_def MAX_OUTPUT_LENGTH_def)
  have r1: "snd (repo_log demo_world (asc ''demo'') (asc ''500''))
       = [[asc ''git'', asc ''-C'', asc ''/repos/demo'', asc ''log'', asc ''--oneline'',
           asc ''-n'', asc ''10'']]"
    using sn g ne l2 n c1 by (simp add: repo_log_def handler_reply Let_def)
  have r2: "snd (repo_file_history demo_world (asc ''demo'') (asc ''README.md'') (asc ''50''))
       = [[asc ''git'', asc ''-C'', asc ''/repos/demo'', asc ''log'', asc ''--oneline'',
           asc ''-n'', asc ''50'', asc ''--'', asc ''README.md'']]"
    using sn g ne l4 n c2 sf by (simp add: repo_file_history_def handler_reply Let_def)
  from p1 p2 p3 l1 l2 l3 r1 r2 show ?thesis by simp
qed

lemma split_acc_no_space:
  "\<forall>c\<in>set w. \<not> isspace c \<Longrightarrow> split_acc v w = (if v @ w = [] then [] else [v @ w])"
  by (induction w arbitrary: v) auto

lemma is_hex_iff: "is_hex c \<longleftrightarrow> c \<in> set (asc ''0123456789abcdefABCDEF'')"
proof
  assume "is_hex c"
  then have "c = 48 \<or> c = 49 \<or> c = 50 \<or> c = 51 \<or> c = 52 \<or> c = 53 \<or> c = 54 \<or> c = 55
             \<or> c = 56 \<or> c = 57 \<or> c = 97 \<or> c = 98 \<or> c = 99 \<or> c = 100 \<or> c = 101
             \<or> c = 102 \<or> c = 65 \<or> c = 66 \<or> c = 67 \<or> c = 68 \<or> c = 69 \<or> c = 70"
    unfolding is_hex_def by arith
  then show "c \<in> set (asc ''0123456789abcdefABCDEF'')"
    by (auto simp: asc_def)
next
  assume "c \<in> set (asc ''0123456789abcdefABCDEF'')"
  then show "is_hex c"
    by (auto simp: asc_def is_hex_def)
qed

lemma is_hex_not_space: "is_hex c \<Longrightarrow> \<not> isspace c"
  by (auto simp: is_hex_def isspace_def)

lemma show_hash_is_one_argument:
  assumes "h \<noteq> []" and "\<forall>c\<in>set h. is_hex c"
  shows "git_cmd repo_path (asc ''show '' @ h) = [asc ''git'', asc ''-C'', repo_path, asc ''show'', h]"
proof -
  have w: "\<forall>c\<in>set h. \<not> isspace c"
    using assms(2) is_hex_not_space by blast
  have t: "split_acc [] h = [h]"
    using split_acc_no_space [OF w, of "[]"] assms(1) by simp
  have "split (asc ''show '' @ h) = asc ''show'' # split_acc [] h"
    by (simp add: split_def asc_def isspace_def)
  with t show ?thesis
    by (simp add: git_cmd_def)
qed

text \<open>
  C9. \<open>repo_show_commit\<close> keeps the hexadecimal digits of the hash, the characters
  \<^verbatim>\<open>0123456789abcdefABCDEF\<close>, and nothing else. For every repository name that is accepted and
  every hash that is not blank: if no character is left, the reply is the invalid-format
  error and no process is started; otherwise the filtered hash is the one argument after
  \<^verbatim>\<open>show\<close> in the git command and the hash named in the reply. So \<^verbatim>\<open>abc123!!\<close> is used as
  \<^verbatim>\<open>abc123\<close>, and \<^verbatim>\<open>!!!\<close> is refused; \<^verbatim>\<open>!!!\<close> starts no process whatever the repository name.
\<close>

theorem commit_hash_filtered_to_hex:
  "(\<forall>c. is_hex c \<longleftrightarrow> c \<in> set (asc ''0123456789abcdefABCDEF''))
   \<and> filter is_hex (strip (asc ''abc123!!'')) = asc ''abc123''
   \<and> filter is_hex (strip (asc ''!!!'')) = []
   \<and> snd (repo_show_commit e repo_name (asc ''!!!'')) = []
   \<and> (\<forall>cmd\<in>set (snd (repo_show_commit e repo_name commit_hash)).
         cmd = git_cmd (get_repo_path e repo_name)
                 (asc ''show '' @ filter is_hex (strip commit_hash)))
   \<and> (strip repo_name \<noteq> [] \<and> get_repo_path e repo_name \<noteq> [] \<longrightarrow>
        repo_show_commit e repo_name (asc ''!!!'')
          = (Inr (cross_mark @ asc '' Error: Invalid commit hash format''), [])
        \<and> repo_show_commit e repo_name (asc ''abc123!!'')
          = (case fst (run_git_command e (get_repo_path e repo_name)
                         (asc ''show '' @ asc ''abc123'') GIT_TIMEOUT) of
               Inl err \<Rightarrow> Inl err
             | Inr result \<Rightarrow>
                 Inr (memo @ asc '' Commit '' @ asc ''abc123'' @ asc '' in '' @ repo_name
                        @ asc '':'' @ [10, 10] @ result),
             snd (run_git_command e (get_repo_path e repo_name)
                    (asc ''show '' @ asc ''abc123'') GIT_TIMEOUT)))
   \<and> (strip repo_name \<noteq> [] \<and> strip commit_hash \<noteq> [] \<and> get_repo_path e repo_name \<noteq> []
        \<and> h = filter (\<lambda>c. c \<in> set (asc ''0123456789abcdefABCDEF'')) (strip commit_hash)
      \<longrightarrow>
        (h = [] \<longrightarrow>
           repo_show_commit e repo_name commit_hash
             = (Inr (cross_mark @ asc '' Error: Invalid commit hash format''), []))
        \<and> (h \<noteq> [] \<longrightarrow>
           repo_show_commit e repo_name commit_hash
             = (case fst (run_git_command e (get_repo_path e repo_name) (asc ''show '' @ h)
                            GIT_TIMEOUT) of
                  Inl err \<Rightarrow> Inl err
                | Inr result \<Rightarrow>
                    Inr (memo @ asc '' Commit '' @ h @ asc '' in '' @ repo_name @ asc '':''
                           @ [10, 10] @ result),
                snd (run_git_command e (get_repo_path e repo_name) (asc ''show '' @ h)
                       GIT_TIMEOUT))
           \<and> git_cmd (get_repo_path e repo_name) (asc ''show '' @ h)
               = [asc ''git'', asc ''-C'', get_repo_path e repo_name, asc ''show'', h]))"
proof -
  have x: "\<forall>c. is_hex c \<longleftrightarrow> c \<in> set (asc ''0123456789abcdefABCDEF'')"
    using is_hex_iff by blast
  have fe: "filter (\<lambda>c. c \<in> set (asc ''0123456789abcdefABCDEF'')) = filter is_hex"
    using is_hex_iff by presburger
  have a: "filter is_hex (strip (asc ''abc123!!'')) = asc ''abc123''"
    by (simp add: strip_def isspace_def is_hex_def asc_def)
  have b: "filter is_hex (strip (asc ''!!!'')) = []"
    by (simp add: strip_def isspace_def is_hex_def asc_def)
  have sa: "strip (asc ''abc123!!'') \<noteq> []" and sb: "strip (asc ''!!!'') \<noteq> []"
    by (simp_all add: strip_def isspace_def asc_def)
  have ne: "asc ''abc123'' \<noteq> []"
    by (simp add: asc_def)
  have c: "snd (repo_show_commit e repo_name (asc ''!!!'')) = []"
    by (simp add: repo_show_commit_def Let_def b)
  have d: "\<forall>cmd\<in>set (snd (repo_show_commit e repo_name commit_hash)).
         cmd = git_cmd (get_repo_path e repo_name)
                 (asc ''show '' @ filter is_hex (strip commit_hash))"
    using run_git_command_cmds
            [of e "get_repo_path e repo_name"
                "asc ''show '' @ filter is_hex (strip commit_hash)" GIT_TIMEOUT]
    by (auto simp: repo_show_commit_def Let_def handler_reply split: if_splits)
  have g: "strip repo_name \<noteq> [] \<and> strip commit_hash \<noteq> [] \<and> get_repo_path e repo_name \<noteq> []
        \<and> h = filter is_hex (strip commit_hash)
      \<longrightarrow>
        (h = [] \<longrightarrow>
           repo_show_commit e repo_name commit_hash
             = (Inr (cross_mark @ asc '' Error: Invalid commit hash format''), []))
        \<and> (h \<noteq> [] \<longrightarrow>
           repo_show_commit e repo_name commit_hash
             = (case fst (run_git_command e (get_repo_path e repo_name) (asc ''show '' @ h)
                            GIT_TIMEOUT) of
                  Inl err \<Rightarrow> Inl err
                | Inr result \<Rightarrow>
                    Inr (memo @ asc '' Commit '' @ h @ asc '' in '' @ repo_name @ asc '':''
                           @ [10, 10] @ result),
                snd (run_git_command e (get_repo_path e repo_name) (asc ''show '' @ h)
                       GIT_TIMEOUT))
           \<and> git_cmd (get_repo_path e repo_name) (asc ''show '' @ h)
               = [asc ''git'', asc ''-C'', get_repo_path e repo_name, asc ''show'', h])"
  proof (intro impI, elim conjE)
    assume n: "strip repo_name \<noteq> []" "strip commit_hash \<noteq> []"
      "get_repo_path e repo_name \<noteq> []" and hd: "h = filter is_hex (strip commit_hash)"
    have r1: "h = [] \<longrightarrow>
           repo_show_commit e repo_name commit_hash
             = (Inr (cross_mark @ asc '' Error: Invalid commit hash format''), [])"
      using n unfolding hd by (simp add: repo_show_commit_def Let_def)
    have r2: "h \<noteq> [] \<longrightarrow>
           repo_show_commit e repo_name commit_hash
             = (case fst (run_git_command e (get_repo_path e repo_name) (asc ''show '' @ h)
                            GIT_TIMEOUT) of
                  Inl err \<Rightarrow> Inl err
                | Inr result \<Rightarrow>
                    Inr (memo @ asc '' Commit '' @ h @ asc '' in '' @ repo_name @ asc '':''
                           @ [10, 10] @ result),
                snd (run_git_command e (get_repo_path e repo_name) (asc ''show '' @ h)
                       GIT_TIMEOUT))"
      using n unfolding hd by (simp add: repo_show_commit_def Let_def handler_reply)
    have hx: "\<forall>c\<in>set h. is_hex c"
      using hd by simp
    have r3: "h \<noteq> [] \<longrightarrow> git_cmd (get_repo_path e repo_name) (asc ''show '' @ h)
               = [asc ''git'', asc ''-C'', get_repo_path e repo_name, asc ''show'', h]"
      using show_hash_is_one_argument [OF _ hx] by blast
    from r1 r2 r3 show "(h = [] \<longrightarrow>
           repo_show_commit e repo_name commit_hash
             = (Inr (cross_mark @ asc '' Error: Invalid commit hash format''), []))
        \<and> (h \<noteq> [] \<longrightarrow>
           repo_show_commit e repo_name commit_hash
             = (case fst (run_git_command e (get_repo_path e repo_name) (asc ''show '' @ h)
                            GIT_TIMEOUT) of
                  Inl err \<Rightarrow> Inl err
                | Inr result \<Rightarrow>
                    Inr (memo @ asc '' Commit '' @ h @ asc '' in '' @ repo_name @ asc '':''
                           @ [10, 10] @ result),
                snd (run_git_command e (get_repo_path e repo_name) (asc ''show '' @ h)
                       GIT_TIMEOUT))
           \<and> git_cmd (get_repo_path e repo_name) (asc ''show '' @ h)
               = [asc ''git'', asc ''-C'', get_repo_path e repo_name, asc ''show'', h])"
      by blast
  qed
  have f: "strip repo_name \<noteq> [] \<and> get_repo_path e repo_name \<noteq> [] \<longrightarrow>
        repo_show_commit e repo_name (asc ''!!!'')
          = (Inr (cross_mark @ asc '' Error: Invalid commit hash format''), [])
        \<and> repo_show_commit e repo_name (asc ''abc123!!'')
          = (case fst (run_git_command e (get_repo_path e repo_name)
                         (asc ''show '' @ asc ''abc123'') GIT_TIMEOUT) of
               Inl err \<Rightarrow> Inl err
             | Inr result \<Rightarrow>
                 Inr (memo @ asc '' Commit '' @ asc ''abc123'' @ asc '' in '' @ repo_name
                        @ asc '':'' @ [10, 10] @ result),
             snd (run_git_command e (get_repo_path e repo_name)
                    (asc ''show '' @ asc ''abc123'') GIT_TIMEOUT))"
    using sa sb ne
    by (simp add: repo_show_commit_def Let_def a b handler_reply)
  show ?thesis
    unfolding fe using x a b c d f g by blast
qed

theorem commit_hash_filtered_to_hex_witness:
  "strip (asc ''demo'') \<noteq> [] \<and> get_repo_path demo_world (asc ''demo'') \<noteq> []
   \<and> strip (asc ''dead-BEEF'') \<noteq> []
   \<and> filter (\<lambda>c. c \<in> set (asc ''0123456789abcdefABCDEF'')) (strip (asc ''dead-BEEF''))
       = asc ''deadBEEF''
   \<and> repo_show_commit demo_world (asc ''demo'') (asc ''!!!'')
       = (Inr (cross_mark @ asc '' Error: Invalid commit hash format''), [])
   \<and> repo_show_commit demo_world (asc ''demo'') (asc ''abc123!!'')
       = (Inr (memo @ asc '' Commit abc123 in demo:'' @ [10, 10] @ asc ''On branch main''),
          [[asc ''git'', asc ''-C'', asc ''/repos/demo'', asc ''show'', asc ''abc123'']])
   \<and> repo_show_commit demo_world (asc ''demo'') (asc ''dead-BEEF'')
       = (Inr (memo @ asc '' Commit deadBEEF in demo:'' @ [10, 10] @ asc ''On branch main''),
          [[asc ''git'', asc ''-C'', asc ''/repos/demo'', asc ''show'', asc ''deadBEEF'']])"
proof -
  have g: "get_repo_path demo_world (asc ''demo'') = asc ''/repos/demo''"
    by (simp add: eval_defs)
  have sn: "strip (asc ''demo'') \<noteq> []" and sh: "strip (asc ''dead-BEEF'') \<noteq> []"
    by (simp_all add: strip_def isspace_def asc_def)
  have ne: "get_repo_path demo_world (asc ''demo'') \<noteq> []"
    unfolding g by (simp add: asc_def)
  have hx: "asc ''deadBEEF''
            = filter (\<lambda>c. c \<in> set (asc ''0123456789abcdefABCDEF'')) (strip (asc ''dead-BEEF''))"
    by (simp add: strip_def isspace_def asc_def)
  have hn: "asc ''deadBEEF'' \<noteq> []"
    by (simp add: asc_def)
  have r1: "run_git_command demo_world (asc ''/repos/demo'') (asc ''show '' @ asc ''abc123'')
             GIT_TIMEOUT
           = (Inr (asc ''On branch main''),
              [[asc ''git'', asc ''-C'', asc ''/repos/demo'', asc ''show'', asc ''abc123'']])"
    by (simp add: eval_defs run_git_command_def git_cmd_def MAX_OUTPUT_LENGTH_def)
  have r2: "run_git_command demo_world (asc ''/repos/demo'') (asc ''show '' @ asc ''deadBEEF'')
             GIT_TIMEOUT
           = (Inr (asc ''On branch main''),
              [[asc ''git'', asc ''-C'', asc ''/repos/demo'', asc ''show'', asc ''deadBEEF'']])"
    by (simp add: eval_defs run_git_command_def git_cmd_def MAX_OUTPUT_LENGTH_def)
  have j1: "asc '' Commit '' @ asc ''abc123'' @ asc '' in '' @ asc ''demo'' @ asc '':''
           = asc '' Commit abc123 in demo:''"
    and j2: "asc '' Commit '' @ asc ''deadBEEF'' @ asc '' in '' @ asc ''demo'' @ asc '':''
           = asc '' Commit deadBEEF in demo:''"
    by (simp_all add: asc_def)
  note t = commit_hash_filtered_to_hex
             [where e = demo_world and repo_name = "asc ''demo''"
                and commit_hash = "asc ''dead-BEEF''" and h = "asc ''deadBEEF''"]
  from t sn ne
  have a: "repo_show_commit demo_world (asc ''demo'') (asc ''!!!'')
          = (Inr (cross_mark @ asc '' Error: Invalid commit hash format''), [])"
    by blast
  from t sn ne
  have b: "repo_show_commit demo_world (asc ''demo'') (asc ''abc123!!'')
          = (case fst (run_git_command demo_world (get_repo_path demo_world (asc ''demo''))
                         (asc ''show '' @ asc ''abc123'') GIT_TIMEOUT) of
               Inl err \<Rightarrow> Inl err
             | Inr result \<Rightarrow>
                 Inr (memo @ asc '' Commit '' @ asc ''abc123'' @ asc '' in '' @ asc ''demo''
                        @ asc '':'' @ [10, 10] @ result),
             snd (run_git_command demo_world (get_repo_path demo_world (asc ''demo''))
                    (asc ''show '' @ asc ''abc123'') GIT_TIMEOUT))"
    by blast
  from t sn sh ne hx hn
  have c: "repo_show_commit demo_world (asc ''demo'') (asc ''dead-BEEF'')
          = (case fst (run_git_command demo_world (get_repo_path demo_world (asc ''demo''))
                         (asc ''show '' @ asc ''deadBEEF'') GIT_TIMEOUT) of
               Inl err \<Rightarrow> Inl err
             | Inr result \<Rightarrow>
                 Inr (memo @ asc '' Commit '' @ asc ''deadBEEF'' @ asc '' in '' @ asc ''demo''
                        @ asc '':'' @ [10, 10] @ result),
             snd (run_git_command demo_world (get_repo_path demo_world (asc ''demo''))
                    (asc ''show '' @ asc ''deadBEEF'') GIT_TIMEOUT))"
    by blast
  have b': "repo_show_commit demo_world (asc ''demo'') (asc ''abc123!!'')
       = (Inr (memo @ asc '' Commit abc123 in demo:'' @ [10, 10] @ asc ''On branch main''),
          [[asc ''git'', asc ''-C'', asc ''/repos/demo'', asc ''show'', asc ''abc123'']])"
    unfolding b g r1 using j1 by (simp add: append_assoc [symmetric] del: append_assoc)
  have c': "repo_show_commit demo_world (asc ''demo'') (asc ''dead-BEEF'')
       = (Inr (memo @ asc '' Commit deadBEEF in demo:'' @ [10, 10] @ asc ''On branch main''),
          [[asc ''git'', asc ''-C'', asc ''/repos/demo'', asc ''show'', asc ''deadBEEF'']])"
    unfolding c g r2 using j2 by (simp add: append_assoc [symmetric] del: append_assoc)
  from sn ne sh hx a b' c' show ?thesis
    by simp
qed

text \<open>
  C3. The claim: the escaped search term reaches git as one argument. \<open>repo_search\<close> puts the
  term between double quotes into one string, and \<open>run_git_command\<close> cuts that string at
  whitespace with \<^verbatim>\<open>args.split()\<close>, which knows nothing of quotes. The term \<^verbatim>\<open>hello world\<close>
  (nothing in it to escape) reaches git as the two arguments \<^verbatim>\<open>"hello\<close> and \<^verbatim>\<open>world"\<close>, the
  quote characters included.
\<close>

theorem search_term_with_blank_is_split:
  "strip (asc ''hello world'') \<noteq> []
   \<and> escape_quotes (strip (asc ''hello world'')) = asc ''hello world''
   \<and> snd (repo_search demo_world (asc ''demo'') (asc ''hello world''))
       = [[asc ''git'', asc ''-C'', asc ''/repos/demo'', asc ''grep'', asc ''-n'',
           34 # asc ''hello'', asc ''world'' @ [34]]]"
proof -
  have a: "strip (asc ''hello world'') = asc ''hello world''"
    by (simp add: strip_def isspace_def asc_def)
  have b: "escape_quotes (asc ''hello world'') = asc ''hello world''"
    by (simp add: escape_quotes_def asc_def)
  have n: "asc ''hello world'' \<noteq> []" "asc ''/repos/demo'' \<noteq> []"
    by (simp_all add: asc_def)
  have sn: "strip (asc ''demo'') \<noteq> []"
    by (simp add: strip_def isspace_def asc_def)
  have g: "get_repo_path demo_world (asc ''demo'') = asc ''/repos/demo''"
    by (simp add: eval_defs)
  have c: "snd (run_git_command demo_world (asc ''/repos/demo'')
                  (asc ''grep -n '' @ [34] @ asc ''hello world'' @ [34]) GIT_TIMEOUT)
           = [[asc ''git'', asc ''-C'', asc ''/repos/demo'', asc ''grep'', asc ''-n'',
               34 # asc ''hello'', asc ''world'' @ [34]]]"
    by (simp add: eval_defs run_git_command_def git_cmd_def MAX_OUTPUT_LENGTH_def)
  have d: "snd (repo_search demo_world (asc ''demo'') (asc ''hello world''))
           = snd (run_git_command demo_world (asc ''/repos/demo'')
                    (asc ''grep -n '' @ [34] @ asc ''hello world'' @ [34]) GIT_TIMEOUT)"
    using sn n g
    by (simp add: repo_search_def Let_def a b split: prod.splits sum.splits)
  from a b n c d show ?thesis by simp
qed

text \<open>
  What does hold: a search term without whitespace in it (once stripped) is one argument,
  with a double quote before and after it and a backslash before each double quote of its
  own.
\<close>

lemma escape_quotes_no_space:
  "\<forall>c\<in>set t. \<not> isspace c \<Longrightarrow> \<forall>c\<in>set (escape_quotes t). \<not> isspace c"
  by (auto simp: escape_quotes_def isspace_def split: if_splits)

lemma search_term_without_blank_is_one_token:
  assumes "\<forall>c\<in>set (strip search_term). \<not> isspace c"
  shows "git_cmd repo_path (asc ''grep -n '' @ [34] @ escape_quotes (strip search_term) @ [34])
         = [asc ''git'', asc ''-C'', repo_path, asc ''grep'', asc ''-n'',
            [34] @ escape_quotes (strip search_term) @ [34]]"
proof -
  have q: "\<not> isspace 34"
    by (simp add: isspace_def)
  have w: "\<forall>c\<in>set (escape_quotes (strip search_term) @ [34]). \<not> isspace c"
    using escape_quotes_no_space [OF assms] q by auto
  have t: "split_acc [34] (escape_quotes (strip search_term) @ [34])
           = [[34] @ escape_quotes (strip search_term) @ [34]]"
    using split_acc_no_space [OF w, of "[34]"] by simp
  have h: "split (asc ''grep -n '' @ [34] @ escape_quotes (strip search_term) @ [34])
           = [asc ''grep'', asc ''-n''] @ split_acc [34] (escape_quotes (strip search_term) @ [34])"
    by (simp add: split_def asc_def isspace_def)
  show ?thesis
    unfolding git_cmd_def h t by simp
qed

end
